theory Spec2Isabelle
  imports Main "HOL-Library.Sublist"
begin

section \<open>Go's \<^verbatim>\<open>strings\<close> helpers used by the validators\<close>

text \<open>
  A Go string is a sequence of bytes, and so is a HOL \<^typ>\<open>string\<close>. The four helpers
  below are the standard library functions the pattern matcher calls; they are written
  after their documentation (byte-wise prefix, suffix and substring tests, and the removal
  of one leading or trailing occurrence).
\<close>

definition Contains :: "string \<Rightarrow> string \<Rightarrow> bool" where
  "Contains s substr = sublist substr s"

definition HasPrefix :: "string \<Rightarrow> string \<Rightarrow> bool" where
  "HasPrefix s p = prefix p s"

definition HasSuffix :: "string \<Rightarrow> string \<Rightarrow> bool" where
  "HasSuffix s x = suffix x s"

definition TrimPrefix :: "string \<Rightarrow> string \<Rightarrow> string" where
  "TrimPrefix s p = (if HasPrefix s p then drop (length p) s else s)"

definition TrimSuffix :: "string \<Rightarrow> string \<Rightarrow> string" where
  "TrimSuffix s x = (if HasSuffix s x then take (length s - length x) s else s)"

section \<open>Pattern matcher\<close>

text \<open>
  \<^verbatim>\<open>RestrictionsValidator.globMatch\<close> (pkg/api/restrictions.go) and
  \<^verbatim>\<open>PolicyBasedValidator.globMatch\<close> (the policy file) have the same body; each is
  embedded on its own, branch by branch. The receiver is not read by either.
\<close>

definition rv_globMatch :: "string \<Rightarrow> string \<Rightarrow> bool" where
  "rv_globMatch pattern str =
     (if pattern = ''*'' then True
      else if Contains pattern ''*'' then
        (if HasSuffix pattern ''*'' then HasPrefix str (TrimSuffix pattern ''*'')
         else if HasPrefix pattern ''*'' then HasSuffix str (TrimPrefix pattern ''*'')
         else pattern = str)
      else pattern = str)"

definition pv_globMatch :: "string \<Rightarrow> string \<Rightarrow> bool" where
  "pv_globMatch pattern str =
     (if pattern = ''*'' then True
      else if Contains pattern ''*'' then
        (if HasSuffix pattern ''*'' then HasPrefix str (TrimSuffix pattern ''*'')
         else if HasPrefix pattern ''*'' then HasSuffix str (TrimPrefix pattern ''*'')
         else pattern = str)
      else pattern = str)"

section \<open>Errors and the early-return loop\<close>

text \<open>
  Every \<^verbatim>\<open>fmt.Errorf\<close> of the validators is one constructor, carrying the values its
  format string prints; \<^verbatim>\<open>%w\<close> wrapping is a constructor with the wrapped error as
  argument. Errors that come from the operating system or the YAML parser are opaque
  (\<open>ExternalError\<close> with their text).
\<close>

datatype error =
    ExternalError string
  | PodRequiredForRestrictions
  | PluginRestricted string error
  | PluginDeniedPodAccess string error
  | CapabilityNotInAllowlist string
  | CapabilityDenied string
  | PodNotInAllowlist
  | PodInDenylist
  | PodRequiredForPolicy
  | RestrictionsValidationFailed error
  | PolicyValidationFailedForPlugin string error
  | AccessDeniedNoMatchingRules
  | AccessDeniedNoRuleAllows
  | ReadConfigFileFailed string error
  | ParseConfigFileFailed string error
  | ListConfigFilesFailed string error
  | NoConfigFilesFound string
  | LoadConfigFailed string error
  | ConfigNil
  | InvalidPolicy error
  | InvalidRestrictions error
  | RuleNamespacesEmpty nat
  | RulePluginsEmpty nat
  | RuleSubjectsEmpty nat
  | SubjectKindEmpty nat nat
  | SubjectNameEmpty nat nat
  | SubjectInvalidKind nat nat string "string list"
  | InvalidDefaultAction
  | GlobalRestrictionInvalid nat error
  | PluginPatternEmpty nat
  | PluginMutationRestrictionInvalid nat nat error
  | InvalidAction
  | CapabilitiesEmpty
  | InvalidCapability string

text \<open>
  The loop shape \<^verbatim>\<open>for _, x := range xs { if err := f(x); err != nil { return err } }\<close>
  followed by falling out of the loop: the first error ends the loop and is the result.
\<close>

fun forEach :: "('a \<Rightarrow> error + unit) \<Rightarrow> 'a list \<Rightarrow> error + unit" where
  "forEach f [] = Inr ()"
| "forEach f (x # xs) = (case f x of Inl e \<Rightarrow> Inl e | Inr _ \<Rightarrow> forEach f xs)"

definition slices_Contains :: "'a list \<Rightarrow> 'a \<Rightarrow> bool" where
  "slices_Contains s v = (v \<in> set s)"

section \<open>Data model of the restrictions layer (pkg/api/restrictions.go)\<close>

text \<open>
  \<^verbatim>\<open>RestrictionAction\<close> and \<^verbatim>\<open>MutationCapability\<close> are Go string types: a configuration can
  hold any string there, and the named constants are particular strings.
\<close>

type_synonym RestrictionAction = string

definition RestrictionAllow :: RestrictionAction where "RestrictionAllow = ''allow''"
definition RestrictionDeny :: RestrictionAction where "RestrictionDeny = ''deny''"

type_synonym MutationCapability = string

definition MutationAnnotations :: MutationCapability where "MutationAnnotations = ''annotations''"
definition MutationMounts :: MutationCapability where "MutationMounts = ''mounts''"
definition MutationArgs :: MutationCapability where "MutationArgs = ''args''"
definition MutationEnv :: MutationCapability where "MutationEnv = ''env''"
definition MutationHooks :: MutationCapability where "MutationHooks = ''hooks''"
definition MutationRlimits :: MutationCapability where "MutationRlimits = ''rlimits''"
definition MutationDevices :: MutationCapability where "MutationDevices = ''devices''"
definition MutationResources :: MutationCapability where "MutationResources = ''resources''"
definition MutationSeccomp :: MutationCapability where "MutationSeccomp = ''seccomp''"
definition MutationNamespaces :: MutationCapability where "MutationNamespaces = ''namespaces''"
definition MutationMemory :: MutationCapability where "MutationMemory = ''memory''"
definition MutationCPU :: MutationCapability where "MutationCPU = ''cpu''"
definition MutationBlockIO :: MutationCapability where "MutationBlockIO = ''blockio''"
definition MutationRDT :: MutationCapability where "MutationRDT = ''rdt''"
definition MutationUnified :: MutationCapability where "MutationUnified = ''unified''"

text \<open>
  A Go map is modelled by the list of its entries (keys distinct); a nil map or slice is
  the empty list, which is what \<^verbatim>\<open>len\<close> sees. Field names carry the struct's initials
  where two structs share a field name.
\<close>

record PodSelector =
  ps_Namespaces :: "string list"
  ps_Labels :: "(string \<times> string) list"
  ps_Names :: "string list"

record MutationRestriction =
  mr_Action :: RestrictionAction
  mr_Capabilities :: "MutationCapability list"

record PodRestriction =
  pr_Action :: RestrictionAction
  pr_Selector :: PodSelector

record PluginRestriction =
  PluginPattern :: string
  MutationRestrictions :: "MutationRestriction list"
  PodRestrictions :: "PodRestriction list"

record RestrictionsConfig =
  DefaultAction :: RestrictionAction
  GlobalRestrictions :: "MutationRestriction list"
  PluginRestrictions :: "PluginRestriction list"
  GlobalPodRestrictions :: "PodRestriction list"

record RestrictionsValidator =
  config :: RestrictionsConfig

definition NewRestrictionsValidator :: "RestrictionsConfig \<Rightarrow> RestrictionsValidator" where
  "NewRestrictionsValidator c = \<lparr>config = c\<rparr>"

section \<open>Request types of the NRI API\<close>

text \<open>
  The protobuf message types of the request are declared outside the files at hand; the
  records below hold the fields the validators read, with the names the validators use.
  Payloads that are only tested for presence (a mount, a hook set, a memory block, ...)
  are kept as opaque text. \<open>OptionalString\<close> is a pointer to a wrapped string whose
  \<^verbatim>\<open>GetValue\<close> is the wrapped value, and the empty string for a nil pointer.
\<close>

type_synonym payload = string

record OptionalString =
  Value :: string

record LinuxResources =
  Memory :: "payload option"
  Cpu :: "payload option"
  BlockioClass :: "OptionalString option"
  RdtClass :: "OptionalString option"
  Unified :: "(string \<times> string) list"

text \<open>
  Modelled from the spec: the declaration of the Linux adjustment message is missing.
  \<open>Devices\<close>, \<open>Resources\<close> and \<open>Namespaces\<close> are the fields the extractor reads. The
  specification gives the adjustment one field per mutation category, seccomp among them
  (``a category is reported present iff its corresponding field in the adjustment is
  non-empty/non-nil''); \<open>SeccompPolicy\<close> is that field. The extractor does not read it.
\<close>

record LinuxContainerAdjustment =
  Devices :: "payload list"
  Resources :: "LinuxResources option"
  SeccompPolicy :: "payload option"
  Namespaces :: "payload list"

record ContainerAdjustment =
  Annotations :: "(string \<times> string) list"
  Mounts :: "payload list"
  Args :: "string list"
  Env :: "payload list"
  Hooks :: "payload option"
  Rlimits :: "payload list"
  Linux :: "LinuxContainerAdjustment option"

record PodSandbox =
  pod_Namespace :: string
  pod_Name :: string
  pod_Labels :: "(string \<times> string) list"

text \<open>
  Modelled from the spec: \<^verbatim>\<open>GetPluginMap\<close> is missing; the specification calls its result
  the request's mutator-ownership map, keyed by mutator name. Go visits the keys of a map
  in an unspecified order, so the request carries the keys in the order the \<^verbatim>\<open>range\<close>
  loops visit them (\<open>PluginMap\<close>), and every statement below holds for each order.
\<close>

record ValidateContainerAdjustmentRequest =
  Pod :: "PodSandbox option"
  Adjust :: "ContainerAdjustment option"
  PluginMap :: "string list"

definition GetValue :: "OptionalString option \<Rightarrow> string" where
  "GetValue v = (case v of None \<Rightarrow> [] | Some x \<Rightarrow> Value x)"

section \<open>Capability extractor\<close>

text \<open>
  \<^verbatim>\<open>extractMutationCapabilities\<close>: each \<^verbatim>\<open>if\<close> appends at most one capability, in the
  order of the source. The nested blocks for the Linux part and for its resources are
  definitions of their own. The source has no branch for seccomp (its comment says the
  seccomp profile is not part of the adjustment and is left to other means).
\<close>

definition extractLinuxResources :: "LinuxResources \<Rightarrow> MutationCapability list" where
  "extractLinuxResources r =
     [MutationResources]
     @ (if Memory r \<noteq> None then [MutationMemory] else [])
     @ (if Cpu r \<noteq> None then [MutationCPU] else [])
     @ (if BlockioClass r \<noteq> None \<and> GetValue (BlockioClass r) \<noteq> [] then [MutationBlockIO] else [])
     @ (if RdtClass r \<noteq> None \<and> GetValue (RdtClass r) \<noteq> [] then [MutationRDT] else [])
     @ (if Unified r \<noteq> [] then [MutationUnified] else [])"

definition extractLinux :: "LinuxContainerAdjustment \<Rightarrow> MutationCapability list" where
  "extractLinux linux =
     (if Devices linux \<noteq> [] then [MutationDevices] else [])
     @ (case Resources linux of None \<Rightarrow> [] | Some r \<Rightarrow> extractLinuxResources r)
     @ (if Namespaces linux \<noteq> [] then [MutationNamespaces] else [])"

definition extractMutationCapabilities ::
    "ContainerAdjustment option \<Rightarrow> MutationCapability list" where
  "extractMutationCapabilities adjust =
     (case adjust of
        None \<Rightarrow> []
      | Some a \<Rightarrow>
          (if Annotations a \<noteq> [] then [MutationAnnotations] else [])
          @ (if Mounts a \<noteq> [] then [MutationMounts] else [])
          @ (if Args a \<noteq> [] then [MutationArgs] else [])
          @ (if Env a \<noteq> [] then [MutationEnv] else [])
          @ (if Hooks a \<noteq> None then [MutationHooks] else [])
          @ (if Rlimits a \<noteq> [] then [MutationRlimits] else [])
          @ (case Linux a of None \<Rightarrow> [] | Some linux \<Rightarrow> extractLinux linux))"

section \<open>Restrictions engine\<close>

definition checkMutationRestriction ::
    "MutationRestriction \<Rightarrow> MutationCapability list \<Rightarrow> error + unit" where
  "checkMutationRestriction restriction capabilities =
     (if mr_Action restriction = RestrictionAllow then
        forEach (\<lambda>cap. if \<not> slices_Contains (mr_Capabilities restriction) cap
                        then Inl (CapabilityNotInAllowlist cap) else Inr ()) capabilities
      else if mr_Action restriction = RestrictionDeny then
        forEach (\<lambda>cap. if slices_Contains (mr_Capabilities restriction) cap
                        then Inl (CapabilityDenied cap) else Inr ()) capabilities
      else Inr ())"

definition podMatches :: "PodSelector \<Rightarrow> PodSandbox \<Rightarrow> bool" where
  "podMatches selector pod =
     (if length (ps_Namespaces selector) > 0
         \<and> \<not> list_ex (\<lambda>nsPattern. rv_globMatch nsPattern (pod_Namespace pod))
                (ps_Namespaces selector)
      then False
      else if length (ps_Labels selector) > 0
         \<and> list_ex (\<lambda>(key, v). map_of (pod_Labels pod) key \<noteq> Some v) (ps_Labels selector)
      then False
      else if length (ps_Names selector) > 0
         \<and> \<not> list_ex (\<lambda>namePattern. rv_globMatch namePattern (pod_Name pod))
                (ps_Names selector)
      then False
      else True)"

definition checkPodRestriction :: "PodRestriction \<Rightarrow> PodSandbox \<Rightarrow> error + unit" where
  "checkPodRestriction restriction pod =
     (let matches = podMatches (pr_Selector restriction) pod in
      if pr_Action restriction = RestrictionAllow then
        (if \<not> matches then Inl PodNotInAllowlist else Inr ())
      else if pr_Action restriction = RestrictionDeny then
        (if matches then Inl PodInDenylist else Inr ())
      else Inr ())"

definition findPluginRestrictions ::
    "RestrictionsValidator \<Rightarrow> string \<Rightarrow> PluginRestriction list" where
  "findPluginRestrictions rv pluginName =
     filter (\<lambda>restriction. rv_globMatch (PluginPattern restriction) pluginName)
       (PluginRestrictions (config rv))"

definition validatePluginMutations ::
    "RestrictionsValidator \<Rightarrow> string \<Rightarrow> ValidateContainerAdjustmentRequest \<Rightarrow> error + unit" where
  "validatePluginMutations rv pluginName req =
     (let capabilities = extractMutationCapabilities (Adjust req) in
      case forEach (\<lambda>restriction. checkMutationRestriction restriction capabilities)
             (GlobalRestrictions (config rv)) of
        Inl e \<Rightarrow> Inl e
      | Inr _ \<Rightarrow>
          forEach (\<lambda>pluginRestriction.
              forEach (\<lambda>mutationRestriction.
                  checkMutationRestriction mutationRestriction capabilities)
                (MutationRestrictions pluginRestriction))
            (findPluginRestrictions rv pluginName))"

definition validatePodAccess ::
    "RestrictionsValidator \<Rightarrow> string \<Rightarrow> PodSandbox \<Rightarrow> error + unit" where
  "validatePodAccess rv pluginName pod =
     (case forEach (\<lambda>restriction. checkPodRestriction restriction pod)
             (GlobalPodRestrictions (config rv)) of
        Inl e \<Rightarrow> Inl e
      | Inr _ \<Rightarrow>
          forEach (\<lambda>pluginRestriction.
              forEach (\<lambda>podRestriction. checkPodRestriction podRestriction pod)
                (PodRestrictions pluginRestriction))
            (findPluginRestrictions rv pluginName))"

text \<open>
  \<^verbatim>\<open>RestrictionsValidator.ValidateContainerAdjustment\<close>. The request pointer itself is
  taken to be non-nil; the generated getter returns a nil pod for a nil request, which is
  the branch \<open>Pod req = None\<close>.
\<close>

definition rv_ValidateContainerAdjustment ::
    "RestrictionsValidator \<Rightarrow> ValidateContainerAdjustmentRequest \<Rightarrow> error + unit" where
  "rv_ValidateContainerAdjustment rv req =
     (case Pod req of
        None \<Rightarrow> Inl PodRequiredForRestrictions
      | Some pod \<Rightarrow>
          forEach (\<lambda>pluginName.
              case validatePluginMutations rv pluginName req of
                Inl e \<Rightarrow> Inl (PluginRestricted pluginName e)
              | Inr _ \<Rightarrow>
                  (case validatePodAccess rv pluginName pod of
                     Inl e \<Rightarrow> Inl (PluginDeniedPodAccess pluginName e)
                   | Inr _ \<Rightarrow> Inr ()))
            (PluginMap req))"

section \<open>Policy engine\<close>

record PolicySubject =
  Kind :: string
  Name :: string

record PolicyRule =
  rule_Namespaces :: "string list"
  Plugins :: "string list"
  Subjects :: "PolicySubject list"

record NRIValidationPolicySpec =
  DefaultDeny :: bool
  Rules :: "PolicyRule list"

record ValidationContext =
  Subject :: "PolicySubject option"
  PodNamespace :: string
  PodName :: string
  PluginName :: string

record PolicyBasedValidator =
  policy :: NRIValidationPolicySpec
  restrictionsValidator :: "RestrictionsValidator option"

definition NewPolicyBasedValidator ::
    "NRIValidationPolicySpec \<Rightarrow> RestrictionsConfig option \<Rightarrow> PolicyBasedValidator" where
  "NewPolicyBasedValidator p restrictionsConfig =
     \<lparr>policy = p,
      restrictionsValidator =
        (case restrictionsConfig of
           None \<Rightarrow> None
         | Some c \<Rightarrow> Some (NewRestrictionsValidator c))\<rparr>"

definition namespaceMatches :: "string \<Rightarrow> string list \<Rightarrow> bool" where
  "namespaceMatches namespace patterns =
     list_ex (\<lambda>pattern. pv_globMatch pattern namespace) patterns"

definition pluginAllowed :: "string \<Rightarrow> string list \<Rightarrow> bool" where
  "pluginAllowed pluginName allowedPlugins =
     list_ex (\<lambda>allowed. pv_globMatch allowed pluginName) allowedPlugins"

definition subjectAllowed :: "PolicySubject option \<Rightarrow> PolicySubject list \<Rightarrow> bool" where
  "subjectAllowed subject allowedSubjects =
     (case subject of
        None \<Rightarrow> False
      | Some s \<Rightarrow> list_ex (\<lambda>allowed. Kind s = Kind allowed \<and> Name s = Name allowed)
                   allowedSubjects)"

definition findMatchingRules :: "PolicyBasedValidator \<Rightarrow> string \<Rightarrow> PolicyRule list" where
  "findMatchingRules pv namespace =
     filter (\<lambda>rule. namespaceMatches namespace (rule_Namespaces rule)) (Rules (policy pv))"

definition validatePluginAccess :: "PolicyBasedValidator \<Rightarrow> ValidationContext \<Rightarrow> error + unit" where
  "validatePluginAccess pv ctx =
     (let matchingRules = findMatchingRules pv (PodNamespace ctx) in
      if length matchingRules = 0 then
        (if DefaultDeny (policy pv) then Inl AccessDeniedNoMatchingRules else Inr ())
      else if list_ex (\<lambda>rule. pluginAllowed (PluginName ctx) (Plugins rule)
                             \<and> subjectAllowed (Subject ctx) (Subjects rule)) matchingRules
        then Inr ()
      else if DefaultDeny (policy pv) then Inl AccessDeniedNoRuleAllows
      else Inr ())"

text \<open>
  \<^verbatim>\<open>PolicyBasedValidator.ValidateContainerAdjustment\<close>. A nil context is replaced by one
  built from the pod; the loop stores the plugin name in the context before each access
  check, and nothing else writes the context, so each check sees the context with that
  plugin name. The \<^verbatim>\<open>context.Context\<close> argument is not read.
\<close>

definition pv_ValidateContainerAdjustment ::
    "PolicyBasedValidator \<Rightarrow> ValidateContainerAdjustmentRequest
       \<Rightarrow> ValidationContext option \<Rightarrow> error + unit" where
  "pv_ValidateContainerAdjustment pv req validationCtx =
     (case Pod req of
        None \<Rightarrow> Inl PodRequiredForPolicy
      | Some pod \<Rightarrow>
          (let vctx = (case validationCtx of
                         None \<Rightarrow> \<lparr>Subject = None, PodNamespace = pod_Namespace pod,
                                  PodName = pod_Name pod, PluginName = []\<rparr>
                       | Some c \<Rightarrow> c) in
           case (case restrictionsValidator pv of
                   None \<Rightarrow> Inr ()
                 | Some rv \<Rightarrow> rv_ValidateContainerAdjustment rv req) of
             Inl e \<Rightarrow> Inl (RestrictionsValidationFailed e)
           | Inr _ \<Rightarrow>
               forEach (\<lambda>pluginName.
                   case validatePluginAccess pv (vctx\<lparr>PluginName := pluginName\<rparr>) of
                     Inl e \<Rightarrow> Inl (PolicyValidationFailedForPlugin pluginName e)
                   | Inr _ \<Rightarrow> Inr ())
                 (PluginMap req)))"

section \<open>Configuration loader and validator\<close>

text \<open>
  \<open>DefaultValidatorConfig\<close> is an untyped map handed through to the default validator;
  only its being nil or not is read here, and its content is kept as text.
\<close>

record ValidationConfig =
  Policy :: "NRIValidationPolicySpec option"
  Restrictions :: "RestrictionsConfig option"
  EnableDefaultValidator :: bool
  DefaultValidatorConfig :: "(string \<times> string) list option"

text \<open>
  The file system and the YAML parser are the environment of the loader: reading a file,
  parsing its bytes into a configuration, and listing the files that match a glob pattern
  either fail with an error of their own or return a value.
\<close>

record Environment =
  ReadFile :: "string \<Rightarrow> error + string"
  Unmarshal :: "string \<Rightarrow> error + ValidationConfig"
  Glob :: "string \<Rightarrow> error + string list"
  Join :: "string \<Rightarrow> string \<Rightarrow> string"

definition LoadConfigFromFile :: "Environment \<Rightarrow> string \<Rightarrow> error + ValidationConfig" where
  "LoadConfigFromFile env path =
     (case ReadFile env path of
        Inl err \<Rightarrow> Inl (ReadConfigFileFailed path err)
      | Inr data \<Rightarrow>
          (case Unmarshal env data of
             Inl err \<Rightarrow> Inl (ParseConfigFileFailed path err)
           | Inr c \<Rightarrow> Inr c))"

text \<open>The zero value of \<^verbatim>\<open>ValidationConfig\<close>, the start of the merge.\<close>

definition zeroConfig :: ValidationConfig where
  "zeroConfig = \<lparr>Policy = None, Restrictions = None, EnableDefaultValidator = False,
                 DefaultValidatorConfig = None\<rparr>"

text \<open>The four assignments of the loop body of \<^verbatim>\<open>LoadConfigFromDir\<close>, in order.\<close>

definition mergeConfig :: "ValidationConfig \<Rightarrow> ValidationConfig \<Rightarrow> ValidationConfig" where
  "mergeConfig mergedConfig c =
     (let m1 = (if Policy c \<noteq> None then mergedConfig\<lparr>Policy := Policy c\<rparr> else mergedConfig);
          m2 = (if Restrictions c \<noteq> None then m1\<lparr>Restrictions := Restrictions c\<rparr> else m1);
          m3 = (if EnableDefaultValidator c
                then m2\<lparr>EnableDefaultValidator := EnableDefaultValidator c\<rparr> else m2);
          m4 = (if DefaultValidatorConfig c \<noteq> None
                then m3\<lparr>DefaultValidatorConfig := DefaultValidatorConfig c\<rparr> else m3)
      in m4)"

fun loadAndMerge ::
    "Environment \<Rightarrow> ValidationConfig \<Rightarrow> string list \<Rightarrow> error + ValidationConfig" where
  "loadAndMerge env mergedConfig [] = Inr mergedConfig"
| "loadAndMerge env mergedConfig (file # files) =
     (case LoadConfigFromFile env file of
        Inl err \<Rightarrow> Inl (LoadConfigFailed file err)
      | Inr c \<Rightarrow> loadAndMerge env (mergeConfig mergedConfig c) files)"

definition LoadConfigFromDir :: "Environment \<Rightarrow> string \<Rightarrow> error + ValidationConfig" where
  "LoadConfigFromDir env dir =
     (case Glob env (Join env dir ''*.yaml'') of
        Inl err \<Rightarrow> Inl (ListConfigFilesFailed dir err)
      | Inr files \<Rightarrow>
          (case (if length files = 0 then Glob env (Join env dir ''*.yml'') else Inr files) of
             Inl err \<Rightarrow> Inl (ListConfigFilesFailed dir err)
           | Inr files' \<Rightarrow>
               if length files' = 0 then Inl (NoConfigFilesFound dir)
               else loadAndMerge env zeroConfig files'))"

definition validKinds :: "string list" where
  "validKinds = [''User'', ''Group'', ''ServiceAccount'']"

definition validateSubject :: "nat \<Rightarrow> nat \<times> PolicySubject \<Rightarrow> error + unit" where
  "validateSubject i js =
     (case js of (j, subject) \<Rightarrow>
        if Kind subject = [] then Inl (SubjectKindEmpty i j)
        else if Name subject = [] then Inl (SubjectNameEmpty i j)
        else if \<not> list_ex (\<lambda>kind. Kind subject = kind) validKinds
          then Inl (SubjectInvalidKind i j (Kind subject) validKinds)
        else Inr ())"

definition validateRule :: "nat \<times> PolicyRule \<Rightarrow> error + unit" where
  "validateRule ir =
     (case ir of (i, rule) \<Rightarrow>
        if length (rule_Namespaces rule) = 0 then Inl (RuleNamespacesEmpty i)
        else if length (Plugins rule) = 0 then Inl (RulePluginsEmpty i)
        else if length (Subjects rule) = 0 then Inl (RuleSubjectsEmpty i)
        else forEach (validateSubject i) (enumerate 0 (Subjects rule)))"

text \<open>
  \<^verbatim>\<open>validatePolicy\<close>: the outer loop runs over the rules with their indices
  (\<^verbatim>\<open>for i, rule := range policy.Rules\<close>), the inner one over the subjects of a rule.
\<close>

definition validatePolicy :: "NRIValidationPolicySpec \<Rightarrow> error + unit" where
  "validatePolicy p = forEach validateRule (enumerate 0 (Rules p))"

definition validCapabilities :: "MutationCapability list" where
  "validCapabilities =
     [MutationAnnotations, MutationMounts, MutationArgs, MutationEnv,
      MutationHooks, MutationRlimits, MutationDevices, MutationResources,
      MutationSeccomp, MutationNamespaces, MutationMemory, MutationCPU,
      MutationBlockIO, MutationRDT, MutationUnified]"

definition validateMutationRestriction :: "MutationRestriction \<Rightarrow> error + unit" where
  "validateMutationRestriction restriction =
     (if mr_Action restriction \<noteq> RestrictionAllow \<and> mr_Action restriction \<noteq> RestrictionDeny
        then Inl InvalidAction
      else if length (mr_Capabilities restriction) = 0 then Inl CapabilitiesEmpty
      else forEach (\<lambda>cap. if \<not> list_ex (\<lambda>valid. cap = valid) validCapabilities
                           then Inl (InvalidCapability cap) else Inr ())
             (mr_Capabilities restriction))"

definition validateRestrictions :: "RestrictionsConfig \<Rightarrow> error + unit" where
  "validateRestrictions restrictions =
     (if DefaultAction restrictions \<noteq> []
         \<and> DefaultAction restrictions \<noteq> RestrictionAllow
         \<and> DefaultAction restrictions \<noteq> RestrictionDeny
        then Inl InvalidDefaultAction
      else
        case forEach (\<lambda>(i, restriction).
                 case validateMutationRestriction restriction of
                   Inl err \<Rightarrow> Inl (GlobalRestrictionInvalid i err)
                 | Inr _ \<Rightarrow> Inr ())
               (enumerate 0 (GlobalRestrictions restrictions)) of
          Inl err \<Rightarrow> Inl err
        | Inr _ \<Rightarrow>
            forEach (\<lambda>(i, pluginRestriction).
                if PluginPattern pluginRestriction = [] then Inl (PluginPatternEmpty i)
                else forEach (\<lambda>(j, mutationRestriction).
                         case validateMutationRestriction mutationRestriction of
                           Inl err \<Rightarrow> Inl (PluginMutationRestrictionInvalid i j err)
                         | Inr _ \<Rightarrow> Inr ())
                       (enumerate 0 (MutationRestrictions pluginRestriction)))
              (enumerate 0 (PluginRestrictions restrictions)))"

definition ValidateConfig :: "ValidationConfig option \<Rightarrow> error + unit" where
  "ValidateConfig cfg =
     (case cfg of
        None \<Rightarrow> Inl ConfigNil
      | Some c \<Rightarrow>
          (case (case Policy c of None \<Rightarrow> Inr () | Some p \<Rightarrow> validatePolicy p) of
             Inl err \<Rightarrow> Inl (InvalidPolicy err)
           | Inr _ \<Rightarrow>
               (case (case Restrictions c of
                        None \<Rightarrow> Inr ()
                      | Some r \<Rightarrow> validateRestrictions r) of
                  Inl err \<Rightarrow> Inl (InvalidRestrictions err)
                | Inr _ \<Rightarrow> Inr ())))"

section \<open>The structural constraints in the specification's words\<close>

text \<open>
  The specification asks that every rule have non-empty namespaces, mutators (the
  \<open>Plugins\<close> list) and subjects, and that every subject have a non-empty kind and name
  with the kind one of User, Group, ServiceAccount. These two predicates follow that
  sentence, not the code; the validator is compared with them below.
\<close>

definition spec_subject_ok :: "PolicySubject \<Rightarrow> bool" where
  "spec_subject_ok s \<longleftrightarrow>
     Kind s \<noteq> [] \<and> Name s \<noteq> [] \<and> Kind s \<in> {''User'', ''Group'', ''ServiceAccount''}"

definition spec_rule_ok :: "PolicyRule \<Rightarrow> bool" where
  "spec_rule_ok r \<longleftrightarrow>
     rule_Namespaces r \<noteq> [] \<and> Plugins r \<noteq> [] \<and> Subjects r \<noteq> []
     \<and> (\<forall>s\<in>set (Subjects r). spec_subject_ok s)"

section \<open>Concrete inputs\<close>

text \<open>
  The policy, contexts and requests of the repository's tests and of the specification's
  scenarios, used to run the statements below on actual values.
\<close>

definition scenario_policy :: NRIValidationPolicySpec where
  "scenario_policy =
     \<lparr>DefaultDeny = True,
      Rules = [\<lparr>rule_Namespaces = [''dev-*''], Plugins = [''*''],
                Subjects = [\<lparr>Kind = ''User'', Name = ''developer''\<rparr>]\<rparr>]\<rparr>"

definition scenario_validator :: PolicyBasedValidator where
  "scenario_validator = NewPolicyBasedValidator scenario_policy None"

definition scenario_ctx :: "string \<Rightarrow> string \<Rightarrow> ValidationContext" where
  "scenario_ctx ns user =
     \<lparr>Subject = Some \<lparr>Kind = ''User'', Name = user\<rparr>, PodNamespace = ns,
      PodName = ''test-pod'', PluginName = ''test-plugin''\<rparr>"

definition deny_namespaces :: MutationRestriction where
  "deny_namespaces = \<lparr>mr_Action = RestrictionDeny, mr_Capabilities = [MutationNamespaces]\<rparr>"

definition restrictions_allow :: RestrictionsConfig where
  "restrictions_allow =
     \<lparr>DefaultAction = RestrictionAllow, GlobalRestrictions = [deny_namespaces],
      PluginRestrictions = [], GlobalPodRestrictions = []\<rparr>"

definition restrictions_deny :: RestrictionsConfig where
  "restrictions_deny =
     \<lparr>DefaultAction = RestrictionDeny, GlobalRestrictions = [deny_namespaces],
      PluginRestrictions = [], GlobalPodRestrictions = []\<rparr>"

definition no_restrictions :: RestrictionsConfig where
  "no_restrictions =
     \<lparr>DefaultAction = [], GlobalRestrictions = [], PluginRestrictions = [],
      GlobalPodRestrictions = []\<rparr>"

definition permissive_policy :: NRIValidationPolicySpec where
  "permissive_policy = \<lparr>DefaultDeny = False, Rules = []\<rparr>"

definition namespace_linux :: LinuxContainerAdjustment where
  "namespace_linux = \<lparr>Devices = [], Resources = None, SeccompPolicy = None,
     Namespaces = [''pid:/proc/1/ns/pid'']\<rparr>"

definition namespace_adjust :: ContainerAdjustment where
  "namespace_adjust = \<lparr>Annotations = [], Mounts = [], Args = [], Env = [], Hooks = None,
     Rlimits = [], Linux = Some namespace_linux\<rparr>"

definition namespace_request :: ValidateContainerAdjustmentRequest where
  "namespace_request =
     \<lparr>Pod = Some \<lparr>pod_Namespace = ''test'', pod_Name = ''test-pod'', pod_Labels = []\<rparr>,
      Adjust = Some namespace_adjust, PluginMap = [''test-plugin'']\<rparr>"

definition podless_request :: ValidateContainerAdjustmentRequest where
  "podless_request = \<lparr>Pod = None, Adjust = Some namespace_adjust,
     PluginMap = [''test-plugin'']\<rparr>"

definition seccomp_linux :: LinuxContainerAdjustment where
  "seccomp_linux = \<lparr>Devices = [], Resources = None,
     SeccompPolicy = Some ''profile'', Namespaces = []\<rparr>"

definition seccomp_adjust :: ContainerAdjustment where
  "seccomp_adjust = \<lparr>Annotations = [], Mounts = [], Args = [], Env = [], Hooks = None,
     Rlimits = [], Linux = Some seccomp_linux\<rparr>"

definition memory_resources :: LinuxResources where
  "memory_resources = \<lparr>Memory = Some ''limit: 1Gi'', Cpu = None, BlockioClass = None,
     RdtClass = None, Unified = []\<rparr>"

definition memory_linux :: LinuxContainerAdjustment where
  "memory_linux = \<lparr>Devices = [], Resources = Some memory_resources,
     SeccompPolicy = None, Namespaces = []\<rparr>"

definition memory_adjust :: ContainerAdjustment where
  "memory_adjust = \<lparr>Annotations = [], Mounts = [], Args = [], Env = [], Hooks = None,
     Rlimits = [], Linux = Some memory_linux\<rparr>"

definition file_a :: string where "file_a = ''/etc/nri/a.yaml''"
definition file_b :: string where "file_b = ''/etc/nri/b.yaml''"

definition policy_a :: NRIValidationPolicySpec where
  "policy_a = \<lparr>DefaultDeny = True,
      Rules = [\<lparr>rule_Namespaces = [''dev-*''], Plugins = [''*''],
                Subjects = [\<lparr>Kind = ''User'', Name = ''developer''\<rparr>]\<rparr>]\<rparr>"

definition policy_b :: NRIValidationPolicySpec where
  "policy_b = \<lparr>DefaultDeny = False,
      Rules = [\<lparr>rule_Namespaces = [''production''], Plugins = [''cpu-manager''],
                Subjects = [\<lparr>Kind = ''Group'', Name = ''platform-team''\<rparr>]\<rparr>]\<rparr>"

definition config_a :: ValidationConfig where
  "config_a = \<lparr>Policy = Some policy_a, Restrictions = None,
     EnableDefaultValidator = True, DefaultValidatorConfig = None\<rparr>"

definition config_b :: ValidationConfig where
  "config_b = \<lparr>Policy = Some policy_b, Restrictions = None,
     EnableDefaultValidator = False, DefaultValidatorConfig = None\<rparr>"

text \<open>
  A directory \<open>/etc/nri\<close> holding the two files: a file's bytes are stood for by its
  path, and parsing them yields the configuration written in that file.
\<close>

definition two_files :: Environment where
  "two_files =
     \<lparr>ReadFile = (\<lambda>path. Inr path),
      Unmarshal = (\<lambda>data. if data = file_a then Inr config_a
                           else if data = file_b then Inr config_b
                           else Inl (ExternalError ''yaml: unmarshal error'')),
      Glob = (\<lambda>pattern. if pattern = ''/etc/nri/*.yaml'' then Inr [file_a, file_b]
                          else Inr []),
      Join = (\<lambda>dir name. dir @ ''/'' @ name)\<rparr>"

definition empty_namespaces_policy :: NRIValidationPolicySpec where
  "empty_namespaces_policy =
     \<lparr>DefaultDeny = False,
      Rules = [\<lparr>rule_Namespaces = [], Plugins = [''test-plugin''],
                Subjects = [\<lparr>Kind = ''User'', Name = ''test-user''\<rparr>]\<rparr>]\<rparr>"

definition empty_namespaces_config :: ValidationConfig where
  "empty_namespaces_config =
     \<lparr>Policy = Some empty_namespaces_policy, Restrictions = None,
      EnableDefaultValidator = True, DefaultValidatorConfig = None\<rparr>"

section \<open>Facts about the string helpers\<close>

lemma HasSuffix_star_Contains: "HasSuffix p ''*'' \<Longrightarrow> Contains p ''*''"
  by (simp add: HasSuffix_def Contains_def suffix_imp_sublist)

lemma HasPrefix_star_Contains: "HasPrefix p ''*'' \<Longrightarrow> Contains p ''*''"
  by (simp add: HasPrefix_def Contains_def prefix_imp_sublist)

lemma HasPrefix_TrimSuffix_self: "HasPrefix p (TrimSuffix p x)"
  by (simp add: HasPrefix_def TrimSuffix_def take_is_prefix)

lemma HasSuffix_TrimPrefix_self: "HasSuffix p (TrimPrefix p x)"
  by (simp add: HasSuffix_def TrimPrefix_def suffix_drop)

lemma Contains_star_iff: "Contains p ''*'' \<longleftrightarrow> CHR ''*'' \<in> set p"
proof
  assume "Contains p ''*''"
  then obtain ps ss where "p = ps @ ''*'' @ ss"
    unfolding Contains_def sublist_def by blast
  then show "CHR ''*'' \<in> set p" by simp
next
  assume "CHR ''*'' \<in> set p"
  then obtain ps ss where "p = ps @ CHR ''*'' # ss"
    by (meson split_list)
  then have "p = ps @ ''*'' @ ss" by simp
  then show "Contains p ''*''"
    unfolding Contains_def sublist_def by blast
qed

lemma pv_globMatch_cases:
  "pv_globMatch p v \<longleftrightarrow>
     p = ''*''
   \<or> (HasSuffix p ''*'' \<and> HasPrefix v (TrimSuffix p ''*''))
   \<or> (HasPrefix p ''*'' \<and> \<not> HasSuffix p ''*'' \<and> HasSuffix v (TrimPrefix p ''*''))
   \<or> p = v"
proof (cases "HasSuffix p ''*''")
  case True
  then show ?thesis
    using HasPrefix_TrimSuffix_self [of p "''*''"]
    by (auto simp: pv_globMatch_def HasSuffix_star_Contains HasPrefix_def)
next
  case False
  then show ?thesis
    using HasSuffix_TrimPrefix_self [of p "''*''"]
    by (auto simp: pv_globMatch_def HasPrefix_star_Contains)
qed

lemma rv_globMatch_eq: "rv_globMatch p v = pv_globMatch p v"
  by (simp add: rv_globMatch_def pv_globMatch_def)

lemma scenario_globs:
  "\<not> pv_globMatch ''dev-*'' ''production''" "pv_globMatch ''dev-*'' ''dev-test''"
  "pv_globMatch ''*'' ''test-plugin''"
  by (simp_all add: pv_globMatch_def Contains_star_iff HasSuffix_def HasPrefix_def
      TrimSuffix_def suffix_def)

section \<open>Facts about the early-return loop\<close>

lemma forEach_isl_iff: "isl (forEach f xs) \<longleftrightarrow> (\<exists>x\<in>set xs. isl (f x))"
  by (induction xs) (auto split: sum.splits)

lemma forEach_Inl_first:
  "forEach f xs = Inl e \<Longrightarrow>
     \<exists>k<length xs. f (xs ! k) = Inl e \<and> (\<forall>m<k. f (xs ! m) = Inr ())"
proof (induction xs)
  case Nil
  then show ?case by simp
next
  case (Cons x xs)
  show ?case
  proof (cases "f x")
    case (Inl e')
    with Cons.prems have "f ((x # xs) ! 0) = Inl e" by simp
    then show ?thesis by (intro exI [of _ 0]) simp
  next
    case (Inr u)
    with Cons.prems have "forEach f xs = Inl e" by simp
    from Cons.IH [OF this] obtain k where k: "k < length xs" "f (xs ! k) = Inl e"
      "\<forall>m<k. f (xs ! m) = Inr ()" by blast
    have "\<forall>m<Suc k. f ((x # xs) ! m) = Inr ()"
    proof (intro allI impI)
      fix m assume "m < Suc k"
      then show "f ((x # xs) ! m) = Inr ()"
        using k(3) Inr by (cases m) auto
    qed
    with k(1,2) show ?thesis by (intro exI [of _ "Suc k"]) simp
  qed
qed

section \<open>Facts about the policy engine\<close>

lemma findMatchingRules_empty_iff:
  "findMatchingRules pv ns = [] \<longleftrightarrow>
     (\<forall>rule\<in>set (Rules (policy pv)).
        \<not> (\<exists>pattern\<in>set (rule_Namespaces rule). pv_globMatch pattern ns))"
  by (auto simp: findMatchingRules_def namespaceMatches_def list_ex_iff filter_empty_conv)

lemma set_findMatchingRules:
  "set (findMatchingRules pv ns) =
     {rule \<in> set (Rules (policy pv)).
        \<exists>pattern\<in>set (rule_Namespaces rule). pv_globMatch pattern ns}"
  by (auto simp: findMatchingRules_def namespaceMatches_def list_ex_iff)

lemma subjectAllowed_iff:
  "subjectAllowed subject allowedSubjects \<longleftrightarrow>
     (\<exists>s. subject = Some s
        \<and> (\<exists>allowed\<in>set allowedSubjects. Kind s = Kind allowed \<and> Name s = Name allowed))"
  by (auto simp: subjectAllowed_def list_ex_iff split: option.splits)

section \<open>Facts about the restrictions engine\<close>

lemma RestrictionAllow_neq_Deny: "RestrictionAllow \<noteq> RestrictionDeny"
  by (simp add: RestrictionAllow_def RestrictionDeny_def)

lemma rv_update_DefaultAction:
  "rv_ValidateContainerAdjustment (NewRestrictionsValidator (c\<lparr>DefaultAction := a\<rparr>)) req
     = rv_ValidateContainerAdjustment (NewRestrictionsValidator c) req"
  by (simp add: rv_ValidateContainerAdjustment_def NewRestrictionsValidator_def
      validatePluginMutations_def validatePodAccess_def findPluginRestrictions_def
      cong: sum.case_cong option.case_cong)

lemmas capability_names =
  MutationAnnotations_def MutationMounts_def MutationArgs_def MutationEnv_def
  MutationHooks_def MutationRlimits_def MutationDevices_def MutationResources_def
  MutationSeccomp_def MutationNamespaces_def MutationMemory_def MutationCPU_def
  MutationBlockIO_def MutationRDT_def MutationUnified_def

lemma seccomp_notin_resources: "''seccomp'' \<notin> set (extractLinuxResources r)"
  by (simp add: extractLinuxResources_def capability_names)

lemma seccomp_notin_linux: "''seccomp'' \<notin> set (extractLinux linux)"
  by (simp add: extractLinux_def seccomp_notin_resources capability_names split: option.splits)

section \<open>Claims about the policy decision\<close>

text \<open>
  C1. One flag governs both failure branches of \<^verbatim>\<open>validatePluginAccess\<close>. When no rule
  has a namespace pattern matching the context's pod namespace, the result is the
  no-matching-rules denial if \<open>DefaultDeny\<close> is set and success otherwise. When some rule
  matches the namespace, but no matching rule both has a plugin pattern matching the
  plugin name and lists a subject equal in kind and name to the context's subject, the
  result is the no-rule-allows denial if \<open>DefaultDeny\<close> is set and success otherwise.
\<close>

theorem validatePluginAccess_defaultDeny:
  "((\<forall>rule\<in>set (Rules (policy pv)).
        \<not> (\<exists>pattern\<in>set (rule_Namespaces rule). pv_globMatch pattern (PodNamespace ctx)))
     \<longrightarrow> validatePluginAccess pv ctx
           = (if DefaultDeny (policy pv) then Inl AccessDeniedNoMatchingRules else Inr ()))
   \<and> ((\<exists>rule\<in>set (Rules (policy pv)).
          \<exists>pattern\<in>set (rule_Namespaces rule). pv_globMatch pattern (PodNamespace ctx))
       \<and> (\<forall>rule\<in>set (Rules (policy pv)).
            (\<exists>pattern\<in>set (rule_Namespaces rule). pv_globMatch pattern (PodNamespace ctx))
            \<longrightarrow> \<not> ((\<exists>allowed\<in>set (Plugins rule). pv_globMatch allowed (PluginName ctx))
                   \<and> (\<exists>s. Subject ctx = Some s
                        \<and> (\<exists>allowed\<in>set (Subjects rule).
                              Kind s = Kind allowed \<and> Name s = Name allowed))))
     \<longrightarrow> validatePluginAccess pv ctx
           = (if DefaultDeny (policy pv) then Inl AccessDeniedNoRuleAllows else Inr ()))"
proof (intro conjI impI)
  assume "\<forall>rule\<in>set (Rules (policy pv)).
        \<not> (\<exists>pattern\<in>set (rule_Namespaces rule). pv_globMatch pattern (PodNamespace ctx))"
  then have "findMatchingRules pv (PodNamespace ctx) = []"
    by (simp add: findMatchingRules_empty_iff)
  then show "validatePluginAccess pv ctx
           = (if DefaultDeny (policy pv) then Inl AccessDeniedNoMatchingRules else Inr ())"
    by (simp add: validatePluginAccess_def)
next
  assume a: "(\<exists>rule\<in>set (Rules (policy pv)).
          \<exists>pattern\<in>set (rule_Namespaces rule). pv_globMatch pattern (PodNamespace ctx))
       \<and> (\<forall>rule\<in>set (Rules (policy pv)).
            (\<exists>pattern\<in>set (rule_Namespaces rule). pv_globMatch pattern (PodNamespace ctx))
            \<longrightarrow> \<not> ((\<exists>allowed\<in>set (Plugins rule). pv_globMatch allowed (PluginName ctx))
                   \<and> (\<exists>s. Subject ctx = Some s
                        \<and> (\<exists>allowed\<in>set (Subjects rule).
                              Kind s = Kind allowed \<and> Name s = Name allowed))))"
  then have ne: "findMatchingRules pv (PodNamespace ctx) \<noteq> []"
    by (simp add: findMatchingRules_empty_iff)
  have "\<not> (pluginAllowed (PluginName ctx) (Plugins rule)
            \<and> subjectAllowed (Subject ctx) (Subjects rule))"
    if "rule \<in> set (findMatchingRules pv (PodNamespace ctx))" for rule
    using that a unfolding set_findMatchingRules subjectAllowed_iff pluginAllowed_def list_ex_iff
    by blast
  then have "\<not> list_ex (\<lambda>rule. pluginAllowed (PluginName ctx) (Plugins rule)
                             \<and> subjectAllowed (Subject ctx) (Subjects rule))
                (findMatchingRules pv (PodNamespace ctx))"
    unfolding list_ex_iff by blast
  with ne show "validatePluginAccess pv ctx
           = (if DefaultDeny (policy pv) then Inl AccessDeniedNoRuleAllows else Inr ())"
    by (simp add: validatePluginAccess_def)
qed

theorem validatePluginAccess_defaultDeny_witness:
  "validatePluginAccess scenario_validator (scenario_ctx ''production'' ''developer'')
     = Inl AccessDeniedNoMatchingRules
   \<and> validatePluginAccess scenario_validator (scenario_ctx ''dev-test'' ''other'')
     = Inl AccessDeniedNoRuleAllows"
proof -
  have a: "validatePluginAccess scenario_validator (scenario_ctx ''production'' ''developer'')
     = Inl AccessDeniedNoMatchingRules"
    using validatePluginAccess_defaultDeny
      [of scenario_validator "scenario_ctx ''production'' ''developer''"]
    by (simp add: scenario_validator_def scenario_policy_def scenario_ctx_def
        NewPolicyBasedValidator_def scenario_globs)
  have b: "validatePluginAccess scenario_validator (scenario_ctx ''dev-test'' ''other'')
     = Inl AccessDeniedNoRuleAllows"
    using validatePluginAccess_defaultDeny
      [of scenario_validator "scenario_ctx ''dev-test'' ''other''"]
    by (simp add: scenario_validator_def scenario_policy_def scenario_ctx_def
        NewPolicyBasedValidator_def scenario_globs)
  show ?thesis using a b by simp
qed

section \<open>Claims about the restrictions engine\<close>

text \<open>
  C2. The \<open>DefaultAction\<close> field is never consulted: two restriction configurations that
  agree on their global restrictions, plugin restrictions and global pod restrictions
  (so differ at most in \<open>DefaultAction\<close>) give the same result, success or the same
  error, on every request.
\<close>

theorem defaultAction_not_consulted:
  assumes "GlobalRestrictions c1 = GlobalRestrictions c2"
    and "PluginRestrictions c1 = PluginRestrictions c2"
    and "GlobalPodRestrictions c1 = GlobalPodRestrictions c2"
  shows "rv_ValidateContainerAdjustment (NewRestrictionsValidator c1) req
           = rv_ValidateContainerAdjustment (NewRestrictionsValidator c2) req"
proof -
  from assms have "c2 = c1\<lparr>DefaultAction := DefaultAction c2\<rparr>" by simp
  then have "rv_ValidateContainerAdjustment (NewRestrictionsValidator c2) req
     = rv_ValidateContainerAdjustment
         (NewRestrictionsValidator (c1\<lparr>DefaultAction := DefaultAction c2\<rparr>)) req"
    by simp
  also have "\<dots> = rv_ValidateContainerAdjustment (NewRestrictionsValidator c1) req"
    by (rule rv_update_DefaultAction)
  finally show ?thesis by simp
qed

theorem defaultAction_not_consulted_witness:
  "DefaultAction restrictions_allow \<noteq> DefaultAction restrictions_deny
   \<and> rv_ValidateContainerAdjustment (NewRestrictionsValidator restrictions_allow)
         namespace_request
       = Inl (PluginRestricted ''test-plugin'' (CapabilityDenied MutationNamespaces))
   \<and> rv_ValidateContainerAdjustment (NewRestrictionsValidator restrictions_deny)
         namespace_request
       = Inl (PluginRestricted ''test-plugin'' (CapabilityDenied MutationNamespaces))"
proof -
  have d: "DefaultAction restrictions_allow \<noteq> DefaultAction restrictions_deny"
    by (simp add: restrictions_allow_def restrictions_deny_def RestrictionAllow_neq_Deny)
  have a: "rv_ValidateContainerAdjustment (NewRestrictionsValidator restrictions_allow)
         namespace_request
       = Inl (PluginRestricted ''test-plugin'' (CapabilityDenied MutationNamespaces))"
    by (simp add: rv_ValidateContainerAdjustment_def NewRestrictionsValidator_def
        validatePluginMutations_def restrictions_allow_def namespace_request_def
        namespace_adjust_def namespace_linux_def extractMutationCapabilities_def
        extractLinux_def deny_namespaces_def checkMutationRestriction_def
        RestrictionAllow_def RestrictionDeny_def slices_Contains_def Let_def)
  have e: "rv_ValidateContainerAdjustment (NewRestrictionsValidator restrictions_allow)
         namespace_request
     = rv_ValidateContainerAdjustment (NewRestrictionsValidator restrictions_deny)
         namespace_request"
    using defaultAction_not_consulted [of restrictions_allow restrictions_deny namespace_request]
    by (simp add: restrictions_allow_def restrictions_deny_def)
  show ?thesis using d a e by simp
qed

text \<open>
  C3. A mutation-restriction check fails iff the action is deny and some extracted
  capability is in the restriction's list, or the action is allow and some extracted
  capability is not in the restriction's list. With no extracted capability every check
  passes, whatever the action.
\<close>

theorem checkMutationRestriction_fails_iff:
  "(isl (checkMutationRestriction restriction capabilities) \<longleftrightarrow>
      (mr_Action restriction = RestrictionDeny
         \<and> (\<exists>cap\<in>set capabilities. cap \<in> set (mr_Capabilities restriction)))
    \<or> (mr_Action restriction = RestrictionAllow
         \<and> (\<exists>cap\<in>set capabilities. cap \<notin> set (mr_Capabilities restriction))))
   \<and> checkMutationRestriction restriction [] = Inr ()"
  using RestrictionAllow_neq_Deny
  by (auto simp: checkMutationRestriction_def forEach_isl_iff slices_Contains_def)

theorem checkMutationRestriction_fails_iff_witness:
  "isl (checkMutationRestriction deny_namespaces [MutationNamespaces])
   \<and> \<not> isl (checkMutationRestriction deny_namespaces [MutationEnv])
   \<and> checkMutationRestriction deny_namespaces [] = Inr ()"
proof -
  have a: "isl (checkMutationRestriction deny_namespaces [MutationNamespaces])"
    using checkMutationRestriction_fails_iff [of deny_namespaces "[MutationNamespaces]"]
    by (simp add: deny_namespaces_def)
  have b: "\<not> isl (checkMutationRestriction deny_namespaces [MutationEnv])"
    using checkMutationRestriction_fails_iff [of deny_namespaces "[MutationEnv]"]
      RestrictionAllow_neq_Deny
    by (simp add: deny_namespaces_def capability_names)
  have c: "checkMutationRestriction deny_namespaces [] = Inr ()"
    using checkMutationRestriction_fails_iff [of deny_namespaces "[]"] by simp
  show ?thesis using a b c by simp
qed

section \<open>Claims about the pattern matcher\<close>

text \<open>
  C4 as the specification states it reads the four cases as a plain disjunction: the
  matcher returns true iff the pattern is \<open>*\<close>, or it ends in \<open>*\<close> and the value has its
  prefix, or it begins with \<open>*\<close> and the value has its suffix, or pattern and value are
  equal. This fails for a pattern that both begins and ends with \<open>*\<close>: the code takes
  the trailing-star branch and returns its prefix test, so the leading-star branch is never
  reached. For pattern \<open>*a*\<close> and value \<open>ba*\<close> the value has the suffix \<open>a*\<close>, yet both
  matchers return false.
\<close>

theorem globMatch_disjunction_counterexample:
  "\<not> (rv_globMatch ''*a*'' ''ba*'' \<longleftrightarrow>
        ''*a*'' = ''*''
      \<or> (HasSuffix ''*a*'' ''*'' \<and> HasPrefix ''ba*'' (TrimSuffix ''*a*'' ''*''))
      \<or> (HasPrefix ''*a*'' ''*'' \<and> HasSuffix ''ba*'' (TrimPrefix ''*a*'' ''*''))
      \<or> ''*a*'' = ''ba*'')
   \<and> \<not> (pv_globMatch ''*a*'' ''ba*'' \<longleftrightarrow>
        ''*a*'' = ''*''
      \<or> (HasSuffix ''*a*'' ''*'' \<and> HasPrefix ''ba*'' (TrimSuffix ''*a*'' ''*''))
      \<or> (HasPrefix ''*a*'' ''*'' \<and> HasSuffix ''ba*'' (TrimPrefix ''*a*'' ''*''))
      \<or> ''*a*'' = ''ba*'')"
  by (simp add: rv_globMatch_def pv_globMatch_def Contains_star_iff HasSuffix_def
      HasPrefix_def TrimSuffix_def TrimPrefix_def suffix_def)

text \<open>
  C4, amended: for every pattern and value, each of the two matchers returns true iff
  the pattern is \<open>*\<close>; or the pattern ends in \<open>*\<close> and the value has the pattern's prefix;
  or the pattern begins with \<open>*\<close>, does not end in \<open>*\<close>, and the value has the pattern's
  suffix; or the pattern equals the value. In particular a pattern that neither begins
  nor ends with \<open>*\<close> (an embedded star, as \<open>a*b\<close>) matches by string equality only, and
  \<open>a*b\<close> does not match \<open>axxb\<close>.
\<close>

theorem globMatch_cases:
  "(rv_globMatch p v \<longleftrightarrow>
       p = ''*''
     \<or> (HasSuffix p ''*'' \<and> HasPrefix v (TrimSuffix p ''*''))
     \<or> (HasPrefix p ''*'' \<and> \<not> HasSuffix p ''*'' \<and> HasSuffix v (TrimPrefix p ''*''))
     \<or> p = v)
   \<and> (pv_globMatch p v \<longleftrightarrow>
       p = ''*''
     \<or> (HasSuffix p ''*'' \<and> HasPrefix v (TrimSuffix p ''*''))
     \<or> (HasPrefix p ''*'' \<and> \<not> HasSuffix p ''*'' \<and> HasSuffix v (TrimPrefix p ''*''))
     \<or> p = v)
   \<and> (\<not> HasPrefix p ''*'' \<and> \<not> HasSuffix p ''*'' \<longrightarrow>
        (rv_globMatch p v \<longleftrightarrow> p = v) \<and> (pv_globMatch p v \<longleftrightarrow> p = v))
   \<and> \<not> rv_globMatch ''a*b'' ''axxb'' \<and> \<not> pv_globMatch ''a*b'' ''axxb''"
proof -
  have shape: "pv_globMatch q w \<longleftrightarrow>
       q = ''*''
     \<or> (HasSuffix q ''*'' \<and> HasPrefix w (TrimSuffix q ''*''))
     \<or> (HasPrefix q ''*'' \<and> \<not> HasSuffix q ''*'' \<and> HasSuffix w (TrimPrefix q ''*''))
     \<or> q = w" for q w
    by (rule pv_globMatch_cases)
  have embedded: "pv_globMatch q w \<longleftrightarrow> q = w"
    if "\<not> HasPrefix q ''*''" "\<not> HasSuffix q ''*''" for q w
  proof -
    have "q \<noteq> ''*''" using that by (auto simp: HasPrefix_def)
    with that show ?thesis by (simp add: pv_globMatch_def)
  qed
  have ends: "\<not> HasPrefix ''a*b'' ''*''" "\<not> HasSuffix ''a*b'' ''*''"
    by (simp_all add: HasPrefix_def HasSuffix_def suffix_def)
  have concrete: "\<not> pv_globMatch ''a*b'' ''axxb''"
    using embedded [OF ends, of "''axxb''"] by simp
  show ?thesis
    using shape [of p v] embedded [of p v] concrete
    by (simp only: rv_globMatch_eq) blast
qed

theorem globMatch_cases_witness:
  "\<not> HasPrefix ''a*b'' ''*'' \<and> \<not> HasSuffix ''a*b'' ''*''
   \<and> \<not> rv_globMatch ''a*b'' ''axxb'' \<and> \<not> pv_globMatch ''a*b'' ''axxb''
   \<and> pv_globMatch ''dev-*'' ''dev-test'' \<and> \<not> pv_globMatch ''dev-*'' ''prod-test''
   \<and> pv_globMatch ''*-test'' ''dev-test'' \<and> pv_globMatch ''exact'' ''exact''"
proof -
  have ends: "\<not> HasPrefix ''a*b'' ''*''" "\<not> HasSuffix ''a*b'' ''*''"
    by (simp_all add: HasPrefix_def HasSuffix_def suffix_def)
  have a: "\<not> rv_globMatch ''a*b'' ''axxb''" "\<not> pv_globMatch ''a*b'' ''axxb''"
    using globMatch_cases [of "''a*b''" "''axxb''"] ends by simp_all
  have b: "pv_globMatch ''dev-*'' ''dev-test''"
    using globMatch_cases [of "''dev-*''" "''dev-test''"]
    by (simp add: HasPrefix_def HasSuffix_def TrimSuffix_def suffix_def)
  have c: "\<not> pv_globMatch ''dev-*'' ''prod-test''"
    using globMatch_cases [of "''dev-*''" "''prod-test''"]
    by (simp add: HasPrefix_def HasSuffix_def TrimSuffix_def TrimPrefix_def suffix_def)
  have d: "pv_globMatch ''*-test'' ''dev-test''"
    using globMatch_cases [of "''*-test''" "''dev-test''"]
    by (simp add: HasPrefix_def HasSuffix_def TrimSuffix_def TrimPrefix_def suffix_def)
  have e: "pv_globMatch ''exact'' ''exact''"
    using globMatch_cases [of "''exact''" "''exact''"] by simp
  show ?thesis using ends a b c d e by simp
qed

section \<open>Claims about the capability extractor\<close>

text \<open>
  C5 as the specification states it: the extractor reports the seccomp capability iff
  the adjustment's seccomp field is set. The extractor has no seccomp branch, so an
  adjustment whose Linux block carries a seccomp policy is extracted without the seccomp
  capability.
\<close>

theorem seccomp_field_counterexample:
  "Linux seccomp_adjust = Some seccomp_linux
   \<and> SeccompPolicy seccomp_linux \<noteq> None
   \<and> MutationSeccomp \<notin> set (extractMutationCapabilities (Some seccomp_adjust))"
  by (simp add: seccomp_adjust_def seccomp_linux_def extractMutationCapabilities_def
      extractLinux_def)

text \<open>
  C5, amended: for every adjustment, the extractor never reports the seccomp capability,
  whatever the adjustment holds; seccomp is all the same a member of the closed
  enumeration of capabilities that configuration validation accepts.
\<close>

theorem seccomp_never_extracted:
  "MutationSeccomp \<notin> set (extractMutationCapabilities adjust)
   \<and> MutationSeccomp \<in> set validCapabilities"
  by (simp add: extractMutationCapabilities_def seccomp_notin_linux validCapabilities_def
      capability_names split: option.splits)

text \<open>
  C6. A nil adjustment yields no capability. An adjustment whose only content is the
  memory block of its Linux resources (every other field nil or empty, the block-I/O and
  RDT class values empty) yields exactly the resources capability followed by the memory
  capability.
\<close>

theorem extract_nil_and_memory_only:
  "extractMutationCapabilities None = []
   \<and> (Annotations a = [] \<and> Mounts a = [] \<and> Args a = [] \<and> Env a = [] \<and> Hooks a = None
        \<and> Rlimits a = [] \<and> Linux a = Some linux
        \<and> Devices linux = [] \<and> Namespaces linux = [] \<and> Resources linux = Some r
        \<and> Memory r \<noteq> None \<and> Cpu r = None
        \<and> GetValue (BlockioClass r) = [] \<and> GetValue (RdtClass r) = [] \<and> Unified r = []
      \<longrightarrow> extractMutationCapabilities (Some a) = [MutationResources, MutationMemory])"
  by (auto simp: extractMutationCapabilities_def extractLinux_def extractLinuxResources_def)

theorem extract_nil_and_memory_only_witness:
  "Linux memory_adjust = Some memory_linux \<and> Resources memory_linux = Some memory_resources
   \<and> Memory memory_resources \<noteq> None
   \<and> extractMutationCapabilities (Some memory_adjust) = [MutationResources, MutationMemory]"
  using extract_nil_and_memory_only [of memory_adjust memory_linux memory_resources]
  by (simp add: memory_adjust_def memory_linux_def memory_resources_def GetValue_def)

section \<open>Claims about subjects\<close>

text \<open>
  C7. A nil subject never satisfies a grant: \<^verbatim>\<open>subjectAllowed\<close> is false for a nil subject
  whatever the list of allowed subjects, and it is true only for a non-nil subject whose
  kind and name both equal those of some allowed subject. Hence under default-deny a
  context without a subject is denied by every policy.
\<close>

theorem subjectAllowed_nil_never_granted:
  "subjectAllowed None allowedSubjects = False
   \<and> (subjectAllowed subject allowedSubjects \<longleftrightarrow>
        (\<exists>s. subject = Some s
           \<and> (\<exists>allowed\<in>set allowedSubjects. Kind s = Kind allowed \<and> Name s = Name allowed)))
   \<and> (Subject ctx = None \<and> DefaultDeny (policy pv) \<longrightarrow> isl (validatePluginAccess pv ctx))"
proof -
  have nil: "subjectAllowed None xs = False" for xs
    by (simp add: subjectAllowed_def)
  have "isl (validatePluginAccess pv ctx)" if "Subject ctx = None" "DefaultDeny (policy pv)"
    using that by (simp add: validatePluginAccess_def Let_def nil list_ex_iff)
  then show ?thesis
    using subjectAllowed_iff [of subject allowedSubjects] nil [of allowedSubjects] by blast
qed

theorem subjectAllowed_nil_never_granted_witness:
  "\<not> subjectAllowed None (Subjects (hd (Rules scenario_policy)))
   \<and> subjectAllowed (Some \<lparr>Kind = ''User'', Name = ''developer''\<rparr>)
       (Subjects (hd (Rules scenario_policy)))
   \<and> \<not> subjectAllowed (Some \<lparr>Kind = ''Group'', Name = ''developer''\<rparr>)
       (Subjects (hd (Rules scenario_policy)))
   \<and> isl (validatePluginAccess scenario_validator
            ((scenario_ctx ''dev-test'' ''developer'')\<lparr>Subject := None\<rparr>))
   \<and> \<not> isl (validatePluginAccess scenario_validator (scenario_ctx ''dev-test'' ''developer''))"
proof -
  let ?allowed = "Subjects (hd (Rules scenario_policy))"
  let ?anonymous = "(scenario_ctx ''dev-test'' ''developer'')\<lparr>Subject := None\<rparr>"
  have a: "\<not> subjectAllowed None ?allowed"
    using subjectAllowed_nil_never_granted [of ?allowed None ?anonymous scenario_validator]
    by simp
  have b: "subjectAllowed (Some \<lparr>Kind = ''User'', Name = ''developer''\<rparr>) ?allowed"
    using subjectAllowed_nil_never_granted
      [of ?allowed "Some \<lparr>Kind = ''User'', Name = ''developer''\<rparr>" ?anonymous
        scenario_validator]
    by (simp add: scenario_policy_def)
  have c: "\<not> subjectAllowed (Some \<lparr>Kind = ''Group'', Name = ''developer''\<rparr>) ?allowed"
    using subjectAllowed_nil_never_granted
      [of ?allowed "Some \<lparr>Kind = ''Group'', Name = ''developer''\<rparr>" ?anonymous
        scenario_validator]
    by (simp add: scenario_policy_def)
  have d: "isl (validatePluginAccess scenario_validator ?anonymous)"
    using subjectAllowed_nil_never_granted [of ?allowed None ?anonymous scenario_validator]
    by (simp add: scenario_ctx_def scenario_validator_def scenario_policy_def
        NewPolicyBasedValidator_def)
  have e: "\<not> isl (validatePluginAccess scenario_validator
                   (scenario_ctx ''dev-test'' ''developer''))"
    by (simp add: validatePluginAccess_def findMatchingRules_def namespaceMatches_def
        pluginAllowed_def subjectAllowed_def scenario_ctx_def scenario_validator_def
        scenario_policy_def NewPolicyBasedValidator_def scenario_globs Let_def)
  show ?thesis using a b c d e by simp
qed

section \<open>Claims about the configuration loader\<close>

lemma mergeConfig_Policy:
  "Policy (mergeConfig acc c) = (if Policy c \<noteq> None then Policy c else Policy acc)"
  by (simp add: mergeConfig_def Let_def)

lemma mergeConfig_Restrictions:
  "Restrictions (mergeConfig acc c)
     = (if Restrictions c \<noteq> None then Restrictions c else Restrictions acc)"
  by (simp add: mergeConfig_def Let_def)

lemma loadAndMerge_foldl:
  "map (LoadConfigFromFile env) files = map Inr cs \<Longrightarrow>
     loadAndMerge env acc files = Inr (foldl mergeConfig acc cs)"
proof (induction files arbitrary: acc cs)
  case Nil
  then show ?case by simp
next
  case (Cons f fs)
  then obtain c cs' where cs: "cs = c # cs'" by (cases cs) auto
  with Cons.prems have "LoadConfigFromFile env f = Inr c"
    and "map (LoadConfigFromFile env) fs = map Inr cs'" by simp_all
  with Cons.IH [of cs' "mergeConfig acc c"] cs show ?case by simp
qed

lemma foldl_mergeConfig_Policy:
  "Policy (foldl mergeConfig acc cs)
     = last (Policy acc # filter (\<lambda>p. p \<noteq> None) (map Policy cs))"
  by (induction cs arbitrary: acc) (simp_all add: mergeConfig_Policy)

lemma foldl_mergeConfig_Restrictions:
  "Restrictions (foldl mergeConfig acc cs)
     = last (Restrictions acc # filter (\<lambda>r. r \<noteq> None) (map Restrictions cs))"
  by (induction cs arbitrary: acc) (simp_all add: mergeConfig_Restrictions)

text \<open>
  C8. The directory merge replaces whole fields, last file wins. One merge step takes the
  policy (the restrictions) of the incoming file when it is set and keeps the
  accumulator's otherwise. Over any sequence of files that all load, the merged policy
  (restrictions) is that of the last file that sets one, or the accumulator's when none
  does. When the directory lists two files that both set a policy, loading the
  directory succeeds and the merged policy is exactly the second file's.
\<close>

theorem directory_merge_last_file_wins:
  "Policy (mergeConfig acc c) = (if Policy c \<noteq> None then Policy c else Policy acc)
   \<and> Restrictions (mergeConfig acc c)
       = (if Restrictions c \<noteq> None then Restrictions c else Restrictions acc)
   \<and> (map (LoadConfigFromFile env) files = map Inr cs \<longrightarrow>
        (\<exists>m. loadAndMerge env acc files = Inr m
           \<and> Policy m = last (Policy acc # filter (\<lambda>p. p \<noteq> None) (map Policy cs))
           \<and> Restrictions m
               = last (Restrictions acc # filter (\<lambda>r. r \<noteq> None) (map Restrictions cs))))
   \<and> (Glob env (Join env dir ''*.yaml'') = Inr [f1, f2]
        \<and> LoadConfigFromFile env f1 = Inr c1 \<and> LoadConfigFromFile env f2 = Inr c2
        \<and> Policy c1 = Some p1 \<and> Policy c2 = Some p2
      \<longrightarrow> (\<exists>m. LoadConfigFromDir env dir = Inr m \<and> Policy m = Some p2))"
proof (intro conjI impI)
  show "Policy (mergeConfig acc c) = (if Policy c \<noteq> None then Policy c else Policy acc)"
    by (rule mergeConfig_Policy)
  show "Restrictions (mergeConfig acc c)
       = (if Restrictions c \<noteq> None then Restrictions c else Restrictions acc)"
    by (rule mergeConfig_Restrictions)
next
  assume "map (LoadConfigFromFile env) files = map Inr cs"
  then have "loadAndMerge env acc files = Inr (foldl mergeConfig acc cs)"
    by (rule loadAndMerge_foldl)
  then show "\<exists>m. loadAndMerge env acc files = Inr m
           \<and> Policy m = last (Policy acc # filter (\<lambda>p. p \<noteq> None) (map Policy cs))
           \<and> Restrictions m
               = last (Restrictions acc # filter (\<lambda>r. r \<noteq> None) (map Restrictions cs))"
    by (simp add: foldl_mergeConfig_Policy foldl_mergeConfig_Restrictions)
next
  assume a: "Glob env (Join env dir ''*.yaml'') = Inr [f1, f2]
        \<and> LoadConfigFromFile env f1 = Inr c1 \<and> LoadConfigFromFile env f2 = Inr c2
        \<and> Policy c1 = Some p1 \<and> Policy c2 = Some p2"
  then have "LoadConfigFromDir env dir
               = Inr (mergeConfig (mergeConfig zeroConfig c1) c2)"
    by (simp add: LoadConfigFromDir_def)
  with a show "\<exists>m. LoadConfigFromDir env dir = Inr m \<and> Policy m = Some p2"
    by (simp add: mergeConfig_Policy)
qed

theorem directory_merge_last_file_wins_witness:
  "Glob two_files (Join two_files ''/etc/nri'' ''*.yaml'') = Inr [file_a, file_b]
   \<and> LoadConfigFromFile two_files file_a = Inr config_a
   \<and> LoadConfigFromFile two_files file_b = Inr config_b
   \<and> Policy config_a = Some policy_a \<and> Policy config_b = Some policy_b
   \<and> (\<exists>m. LoadConfigFromDir two_files ''/etc/nri'' = Inr m \<and> Policy m = Some policy_b)
   \<and> (\<exists>m. loadAndMerge two_files zeroConfig [file_a, file_b] = Inr m
         \<and> Policy m = Some policy_b \<and> Restrictions m = None)"
proof -
  have g: "Glob two_files (Join two_files ''/etc/nri'' ''*.yaml'') = Inr [file_a, file_b]"
    by (simp add: two_files_def)
  have la: "LoadConfigFromFile two_files file_a = Inr config_a"
    by (simp add: two_files_def LoadConfigFromFile_def)
  have lb: "LoadConfigFromFile two_files file_b = Inr config_b"
    by (simp add: two_files_def LoadConfigFromFile_def file_a_def file_b_def)
  have pa: "Policy config_a = Some policy_a" by (simp add: config_a_def)
  have pb: "Policy config_b = Some policy_b" by (simp add: config_b_def)
  have dir: "\<exists>m. LoadConfigFromDir two_files ''/etc/nri'' = Inr m \<and> Policy m = Some policy_b"
    using directory_merge_last_file_wins
      [of zeroConfig config_a two_files "[]" "[]" "''/etc/nri''" file_a file_b
        config_a config_b policy_a policy_b]
      g la lb pa pb
    by simp
  have seq: "\<exists>m. loadAndMerge two_files zeroConfig [file_a, file_b] = Inr m
         \<and> Policy m = Some policy_b \<and> Restrictions m = None"
    using directory_merge_last_file_wins
      [of zeroConfig config_a two_files "[file_a, file_b]" "[config_a, config_b]"
        "''/etc/nri''" file_a file_b config_a config_b policy_a policy_b]
      la lb
    by (simp add: config_a_def config_b_def zeroConfig_def)
  show ?thesis using g la lb pa pb dir seq by simp
qed

section \<open>Claims about configuration validation\<close>

lemma validateSubject_ok_iff: "validateSubject i (j, s) = Inr () \<longleftrightarrow> spec_subject_ok s"
  by (auto simp: validateSubject_def spec_subject_ok_def validKinds_def)

lemma validateSubject_error:
  "validateSubject i (j, s) = Inl e \<Longrightarrow>
     e = SubjectKindEmpty i j \<or> e = SubjectNameEmpty i j
     \<or> e = SubjectInvalidKind i j (Kind s) validKinds"
  by (auto simp: validateSubject_def split: if_splits)

lemma validateSubject_Inl: "validateSubject i (j, s) = Inl e \<Longrightarrow> \<not> spec_subject_ok s"
  using validateSubject_ok_iff [of i j s] by simp

lemma validateSubjects_ok_iff:
  "forEach (validateSubject i) (enumerate n ss) = Inr ()
     \<longleftrightarrow> (\<forall>s\<in>set ss. spec_subject_ok s)"
  by (induction ss arbitrary: n)
    (auto simp: validateSubject_ok_iff dest: validateSubject_Inl split: sum.splits)

lemma validateRule_ok_iff: "validateRule (i, r) = Inr () \<longleftrightarrow> spec_rule_ok r"
  by (simp add: validateRule_def spec_rule_ok_def validateSubjects_ok_iff)

lemma validateRule_Inl: "validateRule (i, r) = Inl e \<Longrightarrow> \<not> spec_rule_ok r"
  using validateRule_ok_iff [of i r] by simp

lemma validateRule_error:
  assumes "validateRule (i, r) = Inl e"
  shows "(e = RuleNamespacesEmpty i \<and> rule_Namespaces r = [])
       \<or> (e = RulePluginsEmpty i \<and> Plugins r = [])
       \<or> (e = RuleSubjectsEmpty i \<and> Subjects r = [])
       \<or> (\<exists>j<length (Subjects r). \<not> spec_subject_ok (Subjects r ! j)
             \<and> (e = SubjectKindEmpty i j \<or> e = SubjectNameEmpty i j
                 \<or> e = SubjectInvalidKind i j (Kind (Subjects r ! j)) validKinds))"
proof (cases "rule_Namespaces r = [] \<or> Plugins r = [] \<or> Subjects r = []")
  case True
  with assms show ?thesis by (auto simp: validateRule_def split: if_splits)
next
  case False
  with assms have "forEach (validateSubject i) (enumerate 0 (Subjects r)) = Inl e"
    by (simp add: validateRule_def)
  from forEach_Inl_first [OF this] obtain j where j: "j < length (Subjects r)"
    "validateSubject i (enumerate 0 (Subjects r) ! j) = Inl e" by auto
  then have v: "validateSubject i (j, Subjects r ! j) = Inl e"
    by (simp add: nth_enumerate_eq)
  then have "\<not> spec_subject_ok (Subjects r ! j)"
    using validateSubject_ok_iff [of i j "Subjects r ! j"] by simp
  with validateSubject_error [OF v] j(1) show ?thesis by blast
qed

lemma validatePolicy_ok_iff:
  "validatePolicy p = Inr () \<longleftrightarrow> (\<forall>rule\<in>set (Rules p). spec_rule_ok rule)"
proof -
  have "forEach validateRule (enumerate n rs) = Inr () \<longleftrightarrow> (\<forall>rule\<in>set rs. spec_rule_ok rule)"
    for n rs
    by (induction rs arbitrary: n)
      (auto simp: validateRule_ok_iff dest: validateRule_Inl split: sum.splits)
  then show ?thesis by (simp add: validatePolicy_def)
qed

lemma validatePolicy_error:
  assumes "validatePolicy p = Inl e"
  shows "\<exists>i<length (Rules p). validateRule (i, Rules p ! i) = Inl e
           \<and> (\<forall>k<i. spec_rule_ok (Rules p ! k))"
proof -
  from assms have "forEach validateRule (enumerate 0 (Rules p)) = Inl e"
    by (simp add: validatePolicy_def)
  from forEach_Inl_first [OF this] obtain i where i: "i < length (Rules p)"
    "validateRule (enumerate 0 (Rules p) ! i) = Inl e"
    "\<forall>m<i. validateRule (enumerate 0 (Rules p) ! m) = Inr ()" by auto
  have "spec_rule_ok (Rules p ! k)" if "k < i" for k
  proof -
    from that i(1) have "enumerate 0 (Rules p) ! k = (k, Rules p ! k)"
      by (simp add: nth_enumerate_eq)
    with i(3) that have "validateRule (k, Rules p ! k) = Inr ()" by auto
    then show ?thesis by (simp only: validateRule_ok_iff)
  qed
  moreover from i(1,2) have "validateRule (i, Rules p ! i) = Inl e"
    by (simp add: nth_enumerate_eq)
  ultimately show ?thesis using i(1) by blast
qed

text \<open>
  C9. For a configuration with a policy: if some rule violates the structural
  constraints, \<^verbatim>\<open>ValidateConfig\<close> returns an invalid-policy error, tagged with the index of
  the first violating rule, and naming either the empty list of that rule or the index of
  a violating subject of that rule together with what is wrong with it. If every rule
  satisfies the constraints, policy validation succeeds, \<^verbatim>\<open>ValidateConfig\<close> returns no
  invalid-policy error, and with no restrictions configured it succeeds.
\<close>

theorem ValidateConfig_policy_structure:
  "Policy c = Some p \<longrightarrow>
     ((\<exists>rule\<in>set (Rules p). \<not> spec_rule_ok rule) \<longrightarrow>
        (\<exists>i e. ValidateConfig (Some c) = Inl (InvalidPolicy e)
           \<and> i < length (Rules p) \<and> \<not> spec_rule_ok (Rules p ! i)
           \<and> (\<forall>k<i. spec_rule_ok (Rules p ! k))
           \<and> ((e = RuleNamespacesEmpty i \<and> rule_Namespaces (Rules p ! i) = [])
              \<or> (e = RulePluginsEmpty i \<and> Plugins (Rules p ! i) = [])
              \<or> (e = RuleSubjectsEmpty i \<and> Subjects (Rules p ! i) = [])
              \<or> (\<exists>j<length (Subjects (Rules p ! i)).
                    \<not> spec_subject_ok (Subjects (Rules p ! i) ! j)
                    \<and> (e = SubjectKindEmpty i j \<or> e = SubjectNameEmpty i j
                        \<or> e = SubjectInvalidKind i j (Kind (Subjects (Rules p ! i) ! j))
                              validKinds)))))
   \<and> ((\<forall>rule\<in>set (Rules p). spec_rule_ok rule) \<longrightarrow>
        validatePolicy p = Inr ()
        \<and> (\<forall>e. ValidateConfig (Some c) \<noteq> Inl (InvalidPolicy e))
        \<and> (Restrictions c = None \<longrightarrow> ValidateConfig (Some c) = Inr ()))"
proof (intro impI conjI)
  assume p: "Policy c = Some p" and bad: "\<exists>rule\<in>set (Rules p). \<not> spec_rule_ok rule"
  from bad have "validatePolicy p \<noteq> Inr ()" by (simp add: validatePolicy_ok_iff)
  then obtain e where e: "validatePolicy p = Inl e"
    by (cases "validatePolicy p") auto
  from validatePolicy_error [OF e] obtain i where i: "i < length (Rules p)"
    "validateRule (i, Rules p ! i) = Inl e" "\<forall>k<i. spec_rule_ok (Rules p ! k)" by blast
  from i(2) have nok: "\<not> spec_rule_ok (Rules p ! i)"
    using validateRule_ok_iff [of i "Rules p ! i"] by simp
  from p e have "ValidateConfig (Some c) = Inl (InvalidPolicy e)"
    by (simp add: ValidateConfig_def)
  with i(1,3) nok validateRule_error [OF i(2)]
  show "\<exists>i e. ValidateConfig (Some c) = Inl (InvalidPolicy e)
           \<and> i < length (Rules p) \<and> \<not> spec_rule_ok (Rules p ! i)
           \<and> (\<forall>k<i. spec_rule_ok (Rules p ! k))
           \<and> ((e = RuleNamespacesEmpty i \<and> rule_Namespaces (Rules p ! i) = [])
              \<or> (e = RulePluginsEmpty i \<and> Plugins (Rules p ! i) = [])
              \<or> (e = RuleSubjectsEmpty i \<and> Subjects (Rules p ! i) = [])
              \<or> (\<exists>j<length (Subjects (Rules p ! i)).
                    \<not> spec_subject_ok (Subjects (Rules p ! i) ! j)
                    \<and> (e = SubjectKindEmpty i j \<or> e = SubjectNameEmpty i j
                        \<or> e = SubjectInvalidKind i j (Kind (Subjects (Rules p ! i) ! j))
                              validKinds)))"
    by blast
next
  assume p: "Policy c = Some p" and ok: "\<forall>rule\<in>set (Rules p). spec_rule_ok rule"
  then show v: "validatePolicy p = Inr ()" by (simp add: validatePolicy_ok_iff)
  from p v show "\<forall>e. ValidateConfig (Some c) \<noteq> Inl (InvalidPolicy e)"
    by (auto simp: ValidateConfig_def split: option.splits sum.splits)
  from p v show "Restrictions c = None \<Longrightarrow> ValidateConfig (Some c) = Inr ()"
    by (simp add: ValidateConfig_def)
qed

theorem ValidateConfig_policy_structure_witness:
  "ValidateConfig (Some empty_namespaces_config) = Inl (InvalidPolicy (RuleNamespacesEmpty 0))
   \<and> spec_rule_ok (hd (Rules policy_a))
   \<and> ValidateConfig (Some config_a) = Inr ()"
proof -
  have bad: "ValidateConfig (Some empty_namespaces_config)
               = Inl (InvalidPolicy (RuleNamespacesEmpty 0))"
    using ValidateConfig_policy_structure
      [of empty_namespaces_config empty_namespaces_policy]
    by (auto simp: empty_namespaces_config_def empty_namespaces_policy_def
        spec_rule_ok_def spec_subject_ok_def)
  have ok: "spec_rule_ok (hd (Rules policy_a))"
    by (simp add: policy_a_def spec_rule_ok_def spec_subject_ok_def)
  have good: "ValidateConfig (Some config_a) = Inr ()"
    using ValidateConfig_policy_structure [of config_a policy_a] ok
    by (simp add: config_a_def policy_a_def)
  show ?thesis using bad ok good by simp
qed

section \<open>Claims about requests without a pod\<close>

text \<open>
  C10. For a request whose pod is nil, the restrictions validator and the policy
  validator each return their pod-is-required error, for every validator (every
  configuration, every policy, with or without restrictions) and every validation
  context: the result does not depend on any restriction or rule.
\<close>

theorem nil_pod_rejected:
  "Pod req = None \<Longrightarrow>
     rv_ValidateContainerAdjustment rv req = Inl PodRequiredForRestrictions
   \<and> pv_ValidateContainerAdjustment pv req validationCtx = Inl PodRequiredForPolicy"
  by (simp add: rv_ValidateContainerAdjustment_def pv_ValidateContainerAdjustment_def)

theorem nil_pod_rejected_witness:
  "Pod podless_request = None
   \<and> rv_ValidateContainerAdjustment (NewRestrictionsValidator no_restrictions) podless_request
       = Inl PodRequiredForRestrictions
   \<and> pv_ValidateContainerAdjustment (NewPolicyBasedValidator permissive_policy None)
         podless_request None
       = Inl PodRequiredForPolicy"
proof -
  have p: "Pod podless_request = None" by (simp add: podless_request_def)
  show ?thesis
    using p nil_pod_rejected [OF p, of "NewRestrictionsValidator no_restrictions"
        "NewPolicyBasedValidator permissive_policy None" None]
    by simp
qed

end
